theory Spec2Isabelle
  imports Complex_Main
begin

section \<open>JavaScript values\<close>

text \<open>
  A JavaScript number is \<open>NaN\<close>, one of the two infinities or a finite value, kept as a
  real (the reals that are not doubles are more than the program can meet). The model
  never computes with doubles itself: comparisons are exact on them, the timestamps and
  the attempt counter are integers below \<open>2^53\<close>, and where the source does rounded
  arithmetic the operations are a parameter (the \<open>engine\<close> below). A value that may be
  \<open>undefined\<close> is an \<open>option\<close>, with \<open>None\<close> for \<open>undefined\<close>. Wherever the source calls
  \<open>Number.parseFloat\<close> on a field of an inbound message, the model's message carries what
  \<open>Number.parseFloat\<close> returns on that field: \<open>NaN\<close> when the field is absent or does not
  start with a number.
\<close>

datatype jsnumber = NaN | Num real | PosInf | NegInf

text \<open>\<open>a !== b\<close> for \<open>a\<close> a number or \<open>undefined\<close> and \<open>b\<close> a number.\<close>

fun strict_neq :: "jsnumber option \<Rightarrow> jsnumber \<Rightarrow> bool" where
  "strict_neq (Some (Num a)) (Num b) = (a \<noteq> b)"
| "strict_neq (Some PosInf) PosInf = False"
| "strict_neq (Some NegInf) NegInf = False"
| "strict_neq _ _ = True"

text \<open>\<open>a > b\<close> for \<open>a\<close> a number and \<open>b\<close> a number or \<open>undefined\<close>.\<close>

fun js_gt :: "jsnumber \<Rightarrow> jsnumber option \<Rightarrow> bool" where
  "js_gt (Num a) (Some (Num b)) = (b < a)"
| "js_gt (Num a) (Some NegInf) = True"
| "js_gt PosInf (Some (Num b)) = True"
| "js_gt PosInf (Some NegInf) = True"
| "js_gt _ _ = False"

text \<open>Truthiness of a number or \<open>undefined\<close>: \<open>undefined\<close>, \<open>NaN\<close> and \<open>0\<close> are falsy.\<close>

fun truthy :: "jsnumber option \<Rightarrow> bool" where
  "truthy (Some (Num r)) = (r \<noteq> 0)"
| "truthy (Some PosInf) = True"
| "truthy (Some NegInf) = True"
| "truthy _ = False"

text \<open>
  What the JavaScript engine contributes to the arithmetic of the placeholder loop: the
  double a decimal literal denotes, the rounded operations \<open>+\<close>, \<open>-\<close> and \<open>*\<close>,
  \<open>Math.max\<close> and \<open>Math.min\<close>, and the value of the \<open>k\<close>-th call of \<open>Math.random()\<close>.
  Nothing is assumed about them, so what is proved of the loop holds for the arithmetic
  of any engine.
\<close>

record engine =
  f_lit :: "real \<Rightarrow> jsnumber"
  f_add :: "jsnumber \<Rightarrow> jsnumber \<Rightarrow> jsnumber"
  f_sub :: "jsnumber \<Rightarrow> jsnumber \<Rightarrow> jsnumber"
  f_mul :: "jsnumber \<Rightarrow> jsnumber \<Rightarrow> jsnumber"
  f_max :: "jsnumber \<Rightarrow> jsnumber \<Rightarrow> jsnumber"
  f_min :: "jsnumber \<Rightarrow> jsnumber \<Rightarrow> jsnumber"
  random :: "nat \<Rightarrow> jsnumber"

text \<open>
  An engine for closed statements. Its operations are exact on finite operands and give
  \<open>NaN\<close> on others, and its \<open>Math.random()\<close> returns 0.5 for the variation and the
  volume and 0 for high and low. With these random values no operation of the loop
  rounds on a finite price (the two inexact literals are multiplied by zero), so on such
  a price its run of the loop is the run of any engine that returns them.
\<close>

definition finite_op :: "(real \<Rightarrow> real \<Rightarrow> real) \<Rightarrow> jsnumber \<Rightarrow> jsnumber \<Rightarrow> jsnumber" where
  "finite_op f a b = (case (a, b) of (Num x, Num y) \<Rightarrow> Num (f x y) | _ \<Rightarrow> NaN)"

definition exact_engine :: engine where
  "exact_engine =
     \<lparr>f_lit = Num, f_add = finite_op (+), f_sub = finite_op (-), f_mul = finite_op (*),
      f_max = finite_op max, f_min = finite_op min,
      random = (\<lambda>k. if k mod 4 = 0 \<or> k mod 4 = 3 then Num (1 / 2) else Num 0)\<rparr>"

section \<open>The price dashboard (\<open>src/app/page.tsx\<close>)\<close>

subsection \<open>Data\<close>

datatype direction = Up | Down | Neutral

text \<open>
  \<open>interface CryptoPrice\<close>. Every field is an option because the decay callback spreads
  \<open>prev[crypto.symbol]\<close>, which leaves every field but \<open>priceDirection\<close> undefined when the
  mapping has no entry for the symbol.
\<close>

record CryptoPrice =
  symbol :: "string option"
  name :: "string option"
  price :: "jsnumber option"
  change24h :: "jsnumber option"
  changePercent24h :: "jsnumber option"
  lastUpdate :: "int option"
  previousPrice :: "jsnumber option"
  priceDirection :: "direction option"

text \<open>\<open>CRYPTO_SYMBOLS\<close>: exchange symbol, display name, short name.\<close>

definition CRYPTO_SYMBOLS :: "(string \<times> string \<times> string) list" where
  "CRYPTO_SYMBOLS =
     [(''BTCUSDT'', ''Bitcoin'', ''BTC''),
      (''ETHUSDT'', ''Ethereum'', ''ETH''),
      (''ADAUSDT'', ''Cardano'', ''ADA''),
      (''SOLUSDT'', ''Solana'', ''SOL''),
      (''DOGEUSDT'', ''Dogecoin'', ''DOGE'')]"

text \<open>
  One element of the array a message of the aggregate stream parses to. \<open>NullElem\<close> is
  \<open>null\<close>, on which reading \<open>ticker.s\<close> throws. Any other element is a \<open>Ticker\<close>:
  \<open>t_s\<close> is \<open>ticker.s\<close> when that is a string (\<open>None\<close> otherwise: nothing else is
  \<open>===\<close> to a symbol), \<open>t_c\<close> is \<open>Number.parseFloat(ticker.c)\<close> and \<open>t_P\<close> is
  \<open>Number.parseFloat(ticker.P)\<close>.
\<close>

datatype ticker_elem =
    NullElem
  | Ticker (t_s: "string option") (t_c: jsnumber) (t_P: jsnumber)

text \<open>
  \<open>event.data\<close> of the aggregate stream: \<open>Unparseable\<close> when \<open>JSON.parse\<close> throws,
  \<open>NotArray\<close> when it returns a value that is not an array (it has no \<open>forEach\<close>, so the
  call throws), \<open>Batch\<close> for an array.
\<close>

datatype agg_payload = Unparseable | NotArray | Batch "ticker_elem list"

text \<open>
  The component's state: the \<open>useState\<close> cells, and of the two timer refs what is pending
  (the delay of the reconnect timer, the symbols that have a decay timer).
\<close>

record tracker =
  prices :: "string \<rightharpoonup> CryptoPrice"
  selectedCrypto :: "string option"
  isConnected :: bool
  connectionAttempts :: nat
  darkMode :: bool
  isLoading :: bool
  reconnectTimeout :: "nat option"
  priceAnimation :: "string set"

text \<open>
  \<open>connectWebSocket\<close> and the handlers it installs are created inside
  \<open>useEffect(() => {...}, [])\<close> (lines 41 to 152). They read \<open>prices\<close> (line 68) and
  \<open>connectionAttempts\<close> (lines 48, 116, 133) as plain variables, that is the constants
  bound by \<open>useState\<close> (lines 31 and 34) in the render in which the effect ran. The state
  setters and the refs are the same objects in every render. A \<open>closure\<close> holds the two
  captured constants.
\<close>

record closure =
  cl_prices :: "string \<rightharpoonup> CryptoPrice"
  cl_connectionAttempts :: nat

subsection \<open>\<open>ws.onmessage\<close>\<close>

text \<open>Lines 70 to 72: the direction tag, from \<open>previousData\<close> and \<open>currentPrice\<close>.\<close>

definition ticker_direction :: "CryptoPrice option \<Rightarrow> jsnumber \<Rightarrow> direction" where
  "ticker_direction previousData currentPrice =
     (case previousData of
        None \<Rightarrow> Neutral
      | Some pd \<Rightarrow>
          if strict_neq (CryptoPrice.price pd) currentPrice
          then (if js_gt currentPrice (CryptoPrice.price pd) then Up else Down)
          else Neutral)"

text \<open>Lines 71 to 89: a decay timer is (re)started exactly when the direction is set.\<close>

definition starts_animation :: "CryptoPrice option \<Rightarrow> jsnumber \<Rightarrow> bool" where
  "starts_animation previousData currentPrice =
     (case previousData of
        None \<Rightarrow> False
      | Some pd \<Rightarrow> strict_neq (CryptoPrice.price pd) currentPrice)"

text \<open>Lines 91 to 100: the snapshot stored for a tracked symbol.\<close>

definition new_snapshot ::
  "string \<times> string \<times> string \<Rightarrow> CryptoPrice option \<Rightarrow> jsnumber \<Rightarrow> jsnumber \<Rightarrow> int \<Rightarrow> CryptoPrice"
where
  "new_snapshot crypto previousData currentPrice pct now =
     \<lparr>symbol = Some (snd (snd crypto)),
      name = Some (fst (snd crypto)),
      price = Some currentPrice,
      change24h = Some pct,
      changePercent24h = Some pct,
      lastUpdate = Some now,
      previousPrice = (case previousData of None \<Rightarrow> None | Some pd \<Rightarrow> CryptoPrice.price pd),
      priceDirection = Some (ticker_direction previousData currentPrice)\<rparr>"

text \<open>
  \<open>data.forEach\<close> (lines 64 to 102). \<open>pr\<close> is the variable \<open>prices\<close> the handler reads,
  \<open>now\<close> is \<open>Date.now()\<close>, taken once for the message. The accumulator is \<open>newPrices\<close>
  as an association list, newest entry first, and the set of pending decay timers. The
  boolean of the result says whether the loop threw.
\<close>

fun forEach_ticker ::
  "(string \<rightharpoonup> CryptoPrice) \<Rightarrow> int \<Rightarrow> ticker_elem list \<Rightarrow>
   (string \<times> CryptoPrice) list \<times> string set \<Rightarrow>
   ((string \<times> CryptoPrice) list \<times> string set) \<times> bool"
where
  "forEach_ticker pr now [] acc = (acc, False)"
| "forEach_ticker pr now (NullElem # ts) acc = (acc, True)"
| "forEach_ticker pr now (Ticker s c P # ts) (newPrices, anim) =
     (case find (\<lambda>cr. Some (fst cr) = s) CRYPTO_SYMBOLS of
        None \<Rightarrow> forEach_ticker pr now ts (newPrices, anim)
      | Some crypto \<Rightarrow>
          forEach_ticker pr now ts
            ((fst crypto, new_snapshot crypto (pr (fst crypto)) c P now) # newPrices,
             (if starts_animation (pr (fst crypto)) c then insert (fst crypto) anim else anim)))"

text \<open>
  Lines 59 to 110. An exception anywhere in the \<open>try\<close> block is caught and logged to the
  console; \<open>setPrices\<close> is reached only when the loop completes with at least one entry.
  Timers started before an exception stay started.
\<close>

definition ws_onmessage :: "closure \<Rightarrow> agg_payload \<Rightarrow> int \<Rightarrow> tracker \<Rightarrow> tracker" where
  "ws_onmessage cl payload now s =
     (case payload of
        Unparseable \<Rightarrow> s
      | NotArray \<Rightarrow> s
      | Batch ts \<Rightarrow>
          (case forEach_ticker (cl_prices cl) now ts ([], priceAnimation s) of
             ((newPrices, anim), threw) \<Rightarrow>
               if threw then s\<lparr>priceAnimation := anim\<rparr>
               else if newPrices \<noteq> []
               then s\<lparr>prices := prices s ++ map_of newPrices, priceAnimation := anim\<rparr>
               else s\<lparr>priceAnimation := anim\<rparr>))"

subsection \<open>Connection handlers\<close>

text \<open>Line 116: \<open>Math.min(1000 * Math.pow(2, connectionAttempts), 30000)\<close>.\<close>

definition backoffDelay :: "nat \<Rightarrow> nat" where
  "backoffDelay attempts = min (1000 * 2 ^ attempts) 30000"

text \<open>Line 133: \<open>Math.min(5000 * (connectionAttempts + 1), 30000)\<close>.\<close>

definition retryDelay :: "nat \<Rightarrow> nat" where
  "retryDelay attempts = min (5000 * (attempts + 1)) 30000"

definition ws_onopen :: "tracker \<Rightarrow> tracker" where
  "ws_onopen s = s\<lparr>isConnected := True, connectionAttempts := 0, isLoading := False\<rparr>"

text \<open>Lines 112 to 123: the delay is computed from the variable \<open>connectionAttempts\<close>.\<close>

definition ws_onclose :: "closure \<Rightarrow> tracker \<Rightarrow> tracker" where
  "ws_onclose cl s =
     s\<lparr>isConnected := False,
       reconnectTimeout := Some (backoffDelay (cl_connectionAttempts cl))\<rparr>"

definition ws_onerror :: "tracker \<Rightarrow> tracker" where
  "ws_onerror s = s\<lparr>isConnected := False\<rparr>"

text \<open>
  \<open>connectWebSocket\<close> (lines 42 to 139): a pending reconnect timer is cleared; \<open>throws\<close>
  says whether \<open>new WebSocket\<close> throws, in which case the \<open>catch\<close> block schedules a retry.
  \<open>reconnectTimeout\<close> follows the ref, which holds the timer scheduled last.
\<close>

definition connectWebSocket :: "closure \<Rightarrow> bool \<Rightarrow> tracker \<Rightarrow> tracker" where
  "connectWebSocket cl throws s =
     (if throws
      then s\<lparr>isConnected := False,
             reconnectTimeout := Some (retryDelay (cl_connectionAttempts cl))\<rparr>
      else s\<lparr>reconnectTimeout := None\<rparr>)"

text \<open>
  The callback of either reconnect timer (lines 119 to 122 and 134 to 137):
  \<open>setConnectionAttempts((prev) => prev + 1)\<close>, then \<open>connectWebSocket()\<close>.
\<close>

definition reconnect_timer :: "closure \<Rightarrow> bool \<Rightarrow> tracker \<Rightarrow> tracker" where
  "reconnect_timer cl throws s =
     connectWebSocket cl throws (s\<lparr>connectionAttempts := connectionAttempts s + 1\<rparr>)"

text \<open>
  The callback of a decay timer (lines 80 to 88):
  \<open>{...prev, [crypto.symbol]: {...prev[crypto.symbol], priceDirection: "neutral"}}\<close>.
\<close>

definition decay_timer :: "string \<Rightarrow> tracker \<Rightarrow> tracker" where
  "decay_timer symb s =
     s\<lparr>prices :=
         (prices s)(symb \<mapsto>
           (case prices s symb of
              None \<Rightarrow>
                \<lparr>symbol = None, name = None, price = None, change24h = None,
                 changePercent24h = None, lastUpdate = None, previousPrice = None,
                 priceDirection = Some Neutral\<rparr>
            | Some p \<Rightarrow> p\<lparr>priceDirection := Some Neutral\<rparr>)),
       priceAnimation := priceAnimation s - {symb}\<rparr>"

text \<open>
  \<open>handleReconnect\<close> (lines 177 to 182). Closing the socket makes the browser deliver a
  close event later; that event is \<open>EvClose\<close> below.
\<close>

definition handleReconnect :: "tracker \<Rightarrow> tracker" where
  "handleReconnect s = s\<lparr>connectionAttempts := 0\<rparr>"

subsection \<open>The component as a transition system\<close>

text \<open>
  Everything that can run after mount: the four socket events, the two kinds of timer
  (a timer fires only while it is pending) and the user's actions.
\<close>

datatype event =
    EvOpen
  | EvMessage agg_payload int
  | EvClose
  | EvError
  | EvReconnectTimer bool
  | EvDecayTimer string
  | EvHandleReconnect
  | EvCryptoClick string
  | EvDialogClose
  | EvToggleDark

fun tracker_step :: "closure \<Rightarrow> event \<Rightarrow> tracker \<Rightarrow> tracker" where
  "tracker_step cl EvOpen s = ws_onopen s"
| "tracker_step cl (EvMessage payload now) s = ws_onmessage cl payload now s"
| "tracker_step cl EvClose s = ws_onclose cl s"
| "tracker_step cl EvError s = ws_onerror s"
| "tracker_step cl (EvReconnectTimer throws) s =
     (if reconnectTimeout s = None then s else reconnect_timer cl throws s)"
| "tracker_step cl (EvDecayTimer symb) s =
     (if symb \<in> priceAnimation s then decay_timer symb s else s)"
| "tracker_step cl EvHandleReconnect s = handleReconnect s"
| "tracker_step cl (EvCryptoClick symb) s = s\<lparr>selectedCrypto := Some symb\<rparr>"
| "tracker_step cl EvDialogClose s = s\<lparr>selectedCrypto := None\<rparr>"
| "tracker_step cl EvToggleDark s = s\<lparr>darkMode := \<not> darkMode s\<rparr>"

text \<open>
  The effect's dependency list is empty, so it runs in the first render only: the closure
  every handler of the running component sees holds the initial values of the two cells,
  \<open>useState({})\<close> and \<open>useState(0)\<close>. The reconnect timers call the same
  \<open>connectWebSocket\<close>, so no later render's values ever reach a handler.
\<close>

definition mount_closure :: closure where
  "mount_closure = \<lparr>cl_prices = Map.empty, cl_connectionAttempts = 0\<rparr>"

text \<open>The state once the component has mounted and the first socket has been created.\<close>

definition mounted :: tracker where
  "mounted =
     \<lparr>prices = Map.empty, selectedCrypto = None, isConnected = False,
      connectionAttempts = 0, darkMode = False, isLoading = True,
      reconnectTimeout = None, priceAnimation = {}\<rparr>"

definition CryptoTracker_step :: "event \<Rightarrow> tracker \<Rightarrow> tracker" where
  "CryptoTracker_step = tracker_step mount_closure"

fun CryptoTracker_run :: "event list \<Rightarrow> tracker \<Rightarrow> tracker" where
  "CryptoTracker_run [] s = s"
| "CryptoTracker_run (e # es) s = CryptoTracker_run es (CryptoTracker_step e s)"

section \<open>The chart (\<open>CryptoChart\<close>, \<open>src/unnamed/part_000\<close>)\<close>

subsection \<open>Data\<close>

text \<open>
  The display label of a bar is the result of a locale formatter on its timestamp; the
  model keeps which formatter was used (\<open>toLocaleTimeString\<close> or \<open>toLocaleDateString\<close>).
\<close>

datatype time_label = LocaleTime int | LocaleDate int

text \<open>\<open>interface ChartData\<close>; all three places that build a bar set every field.\<close>

record ChartData =
  time :: time_label
  price :: jsnumber
  timestamp :: int
  volume :: jsnumber
  "open" :: jsnumber
  high :: jsnumber
  low :: jsnumber
  close :: jsnumber

datatype chart_type = LineChart | AreaChart | CandlestickChart

text \<open>
  The text shown for a failed load is \<open>Failed to load chart data: \<close> followed by the
  message of what was thrown: \<open>HTTP error! status: n\<close>, \<open>No data received from API\<close>,
  the message of an \<open>Error\<close> thrown by \<open>fetch\<close> or \<open>json\<close>, \<open>Unknown error\<close> for a
  thrown value that is not an \<open>Error\<close>, or the engine's message for the \<open>TypeError\<close> of
  indexing \<open>null\<close>.
\<close>

datatype error_message =
    HttpErrorStatus nat
  | NoDataReceived
  | ErrorMessage string
  | UnknownError
  | TypeErrorMessage

record chart =
  chartData :: "ChartData list"
  loading :: bool
  timeframe :: string
  chartType :: chart_type
  error :: "error_message option"
  showVolume :: bool
  zoomLevel :: nat

definition chart_initial :: chart where
  "chart_initial =
     \<lparr>chartData = [], loading = True, timeframe = ''1h'', chartType = CandlestickChart,
      error = None, showVolume = True, zoomLevel = 1\<rparr>"

subsection \<open>\<open>fetchHistoricalData\<close>\<close>

text \<open>Lines 55 to 62: \<open>intervalMap[timeframe] || intervalMap["1h"]\<close>, as (interval, limit).\<close>

definition intervalMap :: "string \<rightharpoonup> string \<times> nat" where
  "intervalMap =
     [''1h'' \<mapsto> (''1m'', 60), ''24h'' \<mapsto> (''5m'', 288),
      ''7d'' \<mapsto> (''1h'', 168), ''30d'' \<mapsto> (''4h'', 180)]"

definition config :: "string \<Rightarrow> string \<times> nat" where
  "config tf = (case intervalMap tf of Some c \<Rightarrow> c | None \<Rightarrow> (''1m'', 60))"

text \<open>Line 63: the request, as (symbol, interval, limit).\<close>

definition klines_request :: "string \<Rightarrow> string \<Rightarrow> string \<times> string \<times> nat" where
  "klines_request symb tf = (symb, fst (config tf), snd (config tf))"

text \<open>
  What the two awaited calls deliver. A thrown value is an \<open>Error\<close> with its message or
  something else. An element of the response array is \<open>null\<close> (indexing it throws) or a
  row, of which the model keeps \<open>item[0]\<close> and \<open>Number.parseFloat\<close> of \<open>item[1]\<close> to
  \<open>item[5]\<close>: open time, open, high, low, close, volume.
\<close>

datatype thrown = ErrorObject string | NotAnError

datatype kline_item =
    NullItem
  | Kline int jsnumber jsnumber jsnumber jsnumber jsnumber

datatype json_body = JsonRejected thrown | NotAnArray | Rows "kline_item list"

text \<open>\<open>HttpResponse ok status body\<close>: \<open>response.ok\<close>, \<open>response.status\<close>, \<open>response.json()\<close>.\<close>

datatype fetch_outcome =
    FetchRejected thrown
  | HttpResponse bool nat json_body

definition message_of :: "thrown \<Rightarrow> error_message" where
  "message_of t = (case t of ErrorObject m \<Rightarrow> ErrorMessage m | NotAnError \<Rightarrow> UnknownError)"

text \<open>Lines 73 to 94: \<open>data.map\<close>; \<open>None\<close> when indexing an element throws.\<close>

fun format_items :: "string \<Rightarrow> kline_item list \<Rightarrow> ChartData list option" where
  "format_items tf [] = Some []"
| "format_items tf (NullItem # items) = None"
| "format_items tf (Kline ts op hi lo cl vo # items) =
     map_option
       ((#) \<lparr>time = (if tf = ''7d'' \<or> tf = ''30d'' then LocaleDate ts else LocaleTime ts),
             price = cl, timestamp = ts, volume = vo, open = op, high = hi, low = lo,
             close = cl\<rparr>)
       (format_items tf items)"

text \<open>
  The \<open>try\<close> block (lines 54 to 97): \<open>Inl\<close> the message of what it throws, \<open>Inr\<close> the
  \<open>formattedData\<close> it passes to \<open>setChartData\<close>.
\<close>

definition fetch_try :: "string \<Rightarrow> fetch_outcome \<Rightarrow> error_message + ChartData list" where
  "fetch_try tf outcome =
     (case outcome of
        FetchRejected t \<Rightarrow> Inl (message_of t)
      | HttpResponse ok status body \<Rightarrow>
          if \<not> ok then Inl (HttpErrorStatus status)
          else
            (case body of
               JsonRejected t \<Rightarrow> Inl (message_of t)
             | NotAnArray \<Rightarrow> Inl NoDataReceived
             | Rows items \<Rightarrow>
                 if items = [] then Inl NoDataReceived
                 else
                   (case format_items tf items of
                      None \<Rightarrow> Inl TypeErrorMessage
                    | Some formattedData \<Rightarrow> Inr formattedData)))"

text \<open>
  The loop of lines 107 to 126 over \<open>i = 59, ..., 0\<close>, with the arithmetic of the engine
  \<open>eng\<close>. Each round makes four calls of \<open>Math.random()\<close>, in the order variation, high,
  low, volume; \<open>k\<close> counts the calls made so far. \<open>now - i * 60000\<close> is exact.
\<close>

fun sample_loop ::
  "engine \<Rightarrow> int \<Rightarrow> nat list \<Rightarrow> jsnumber \<Rightarrow> nat \<Rightarrow> ChartData list \<Rightarrow> ChartData list"
where
  "sample_loop eng now [] pr k sampleData = sampleData"
| "sample_loop eng now (i # is) pr k sampleData =
     (let ts = now - int i * 60000;
          variation = f_mul eng (f_sub eng (random eng k) (f_lit eng 0.5)) (f_lit eng 0.02);
          op = pr;
          cl = f_mul eng pr (f_add eng (f_lit eng 1) variation);
          hi = f_mul eng (f_max eng op cl)
                 (f_add eng (f_lit eng 1) (f_mul eng (random eng (k + 1)) (f_lit eng 0.01)));
          lo = f_mul eng (f_min eng op cl)
                 (f_sub eng (f_lit eng 1) (f_mul eng (random eng (k + 2)) (f_lit eng 0.01)))
      in sample_loop eng now is cl (k + 4)
           (sampleData @
            [\<lparr>time = LocaleTime ts, price = cl, timestamp = ts,
              volume = f_mul eng (random eng (k + 3)) (f_lit eng 1000000), open = op,
              high = hi, low = lo, close = cl\<rparr>]))"

definition sample_data :: "engine \<Rightarrow> int \<Rightarrow> jsnumber \<Rightarrow> ChartData list" where
  "sample_data eng now currentPrice = sample_loop eng now (rev [0..<60]) currentPrice 0 []"

text \<open>
  The \<open>catch\<close> block (lines 98 to 129): the message is set, and cleared again together
  with the bars being replaced when \<open>currentPrice\<close> is truthy.
\<close>

definition fetch_catch ::
  "error_message \<Rightarrow> jsnumber option \<Rightarrow> engine \<Rightarrow> int \<Rightarrow> chart \<Rightarrow> chart"
where
  "fetch_catch msg currentPrice eng now s =
     (case currentPrice of
        None \<Rightarrow> s\<lparr>error := Some msg\<rparr>
      | Some p \<Rightarrow>
          if truthy (Some p) then s\<lparr>chartData := sample_data eng now p, error := None\<rparr>
          else s\<lparr>error := Some msg\<rparr>)"

text \<open>
  \<open>fetchHistoricalData\<close> runs in two steps of the event loop: up to the first \<open>await\<close>
  (lines 50 and 51), and from the point where the awaited calls have delivered
  \<open>outcome\<close> to the end of the \<open>finally\<close> block. \<open>tf\<close> and \<open>currentPrice\<close> are the
  values of the render that made the call (a price that arrives while the fetch is
  pending is not seen); nothing in the function looks at which call is the latest.
\<close>

definition fetch_start :: "chart \<Rightarrow> chart" where
  "fetch_start s = s\<lparr>loading := True, error := None\<rparr>"

definition fetch_resolve ::
  "string \<Rightarrow> jsnumber option \<Rightarrow> engine \<Rightarrow> int \<Rightarrow> fetch_outcome \<Rightarrow> chart \<Rightarrow> chart"
where
  "fetch_resolve tf currentPrice eng now outcome s =
     (case fetch_try tf outcome of
        Inr formattedData \<Rightarrow> s\<lparr>chartData := formattedData, loading := False\<rparr>
      | Inl msg \<Rightarrow> (fetch_catch msg currentPrice eng now s)\<lparr>loading := False\<rparr>)"

subsection \<open>The per-symbol stream\<close>

text \<open>
  \<open>event.data\<close> of the per-symbol stream: \<open>ChartUnparseable\<close> when \<open>JSON.parse\<close> throws,
  \<open>ChartNull\<close> when it returns \<open>null\<close> (reading \<open>ticker.c\<close> throws), otherwise
  \<open>Number.parseFloat\<close> of the fields \<open>c\<close>, \<open>v\<close>, \<open>o\<close>, \<open>h\<close> and \<open>l\<close>.
\<close>

datatype chart_payload =
    ChartUnparseable
  | ChartNull
  | ChartTicker jsnumber jsnumber jsnumber jsnumber jsnumber

text \<open>Line 164.\<close>

definition maxPoints :: "string \<Rightarrow> nat" where
  "maxPoints tf = (if tf = ''1h'' then 60 else if tf = ''24h'' then 288 else 168)"

text \<open>\<open>xs.slice(-k)\<close> for \<open>k \<ge> 0\<close>; \<open>-0\<close> is \<open>0\<close>, which keeps the whole array.\<close>

definition slice_neg :: "nat \<Rightarrow> 'a list \<Rightarrow> 'a list" where
  "slice_neg k xs = (if k = 0 then xs else drop (length xs - k) xs)"

text \<open>Lines 152 to 161.\<close>

definition newDataPoint ::
  "jsnumber \<Rightarrow> jsnumber \<Rightarrow> jsnumber \<Rightarrow> jsnumber \<Rightarrow> jsnumber \<Rightarrow> int \<Rightarrow> ChartData"
where
  "newDataPoint c v op hi lo now =
     \<lparr>time = LocaleTime now, price = c, timestamp = now, volume = v, open = op,
      high = hi, low = lo, close = c\<rparr>"

text \<open>Lines 163 to 166: the updater passed to \<open>setChartData\<close>.\<close>

definition append_point :: "string \<Rightarrow> ChartData \<Rightarrow> ChartData list \<Rightarrow> ChartData list" where
  "append_point tf pt prev = slice_neg (maxPoints tf - 1) prev @ [pt]"

text \<open>
  Lines 146 to 170; \<open>tf\<close> is the timeframe of the render whose effect opened the socket.
\<close>

definition chart_onmessage :: "string \<Rightarrow> chart_payload \<Rightarrow> int \<Rightarrow> chart \<Rightarrow> chart" where
  "chart_onmessage tf payload now s =
     (case payload of
        ChartUnparseable \<Rightarrow> s
      | ChartNull \<Rightarrow> s
      | ChartTicker c v op hi lo \<Rightarrow>
          s\<lparr>chartData := append_point tf (newDataPoint c v op hi lo now) (chartData s)\<rparr>)"

text \<open>A run of messages of the per-symbol stream, each with its \<open>Date.now()\<close>.\<close>

fun live_appends :: "string \<Rightarrow> (chart_payload \<times> int) list \<Rightarrow> chart \<Rightarrow> chart" where
  "live_appends tf [] s = s"
| "live_appends tf ((payload, now) # ms) s = live_appends tf ms (chart_onmessage tf payload now s)"

section \<open>Notions the properties are stated with\<close>

text \<open>
  The capacity of a timeframe's window: the bar count the timeframe maps to in
  \<open>intervalMap\<close>.
\<close>

definition capacity :: "string \<Rightarrow> nat" where
  "capacity tf = snd (config tf)"


text \<open>The messages on which the \<open>try\<close> block of a handler throws.\<close>

fun agg_throws :: "agg_payload \<Rightarrow> bool" where
  "agg_throws Unparseable = True"
| "agg_throws NotArray = True"
| "agg_throws (Batch ts) = (NullElem \<in> set ts)"

fun chart_throws :: "chart_payload \<Rightarrow> bool" where
  "chart_throws ChartUnparseable = True"
| "chart_throws ChartNull = True"
| "chart_throws (ChartTicker c v op hi lo) = False"

text \<open>
  A malformed message of the per-symbol stream, in the words of the specification
  ("malformed or unparseable"): one that does not parse, or that parses to something
  without a numeric last price.
\<close>

fun malformed_chart_payload :: "chart_payload \<Rightarrow> bool" where
  "malformed_chart_payload ChartUnparseable = True"
| "malformed_chart_payload ChartNull = True"
| "malformed_chart_payload (ChartTicker c v op hi lo) = (c = NaN)"

section \<open>Reconnect backoff\<close>

lemma backoffDelay_table:
  "map backoffDelay [0, 1, 2, 3, 4, 5] = [1000, 2000, 4000, 8000, 16000, 30000]"
  by (simp add: backoffDelay_def)

lemma backoffDelay_le: "backoffDelay attempts \<le> 30000"
  by (simp add: backoffDelay_def)

text \<open>
  As a function of the variable it reads, the delay is the capped doubling above. The
  variable is the closure's, though, and in the running component that is the constant
  \<open>0\<close> of the first render: every close schedules the reconnect after 1000 ms, whatever
  the attempt counter of the state says.
\<close>

lemma CryptoTracker_close_delay:
  "reconnectTimeout (CryptoTracker_step EvClose s) = Some 1000"
  by (simp add: CryptoTracker_step_def ws_onclose_def mount_closure_def backoffDelay_def)

text \<open>
  C2. The stream closes, the reconnect timer fires (the counter becomes 1), the new
  stream closes as well: the delay scheduled by this second close is 1000 ms, where
  \<open>min(1000 * 2^1, 30000)\<close> is 2000.
\<close>

theorem close_after_one_attempt_schedules_1000:
  "connectionAttempts (CryptoTracker_run [EvClose, EvReconnectTimer False] mounted) = 1 \<and>
   reconnectTimeout (CryptoTracker_run [EvClose, EvReconnectTimer False, EvClose] mounted)
     = Some 1000 \<and>
   min (1000 * 2 ^ 1) 30000 = (2000 :: nat)"
  by (simp add: CryptoTracker_step_def ws_onclose_def mount_closure_def backoffDelay_def
      reconnect_timer_def connectWebSocket_def mounted_def)

section \<open>Direction of a price update\<close>

text \<open>
  Against the entry \<open>previousData\<close> the handler looks up, the tag is as expected on
  finite numbers.
\<close>

lemma ticker_direction_numbers:
  "CryptoPrice.price pd = Some (Num p) \<Longrightarrow>
   ticker_direction (Some pd) (Num p') =
     (if p < p' then Up else if p' < p then Down else Neutral)"
  by (auto simp: ticker_direction_def)

lemma ticker_direction_absent: "ticker_direction None currentPrice = Neutral"
  by (simp add: ticker_direction_def)

text \<open>
  C3. Two updates for BTCUSDT arrive, with last prices 100 and then 101. The first is
  stored; the snapshot stored for the second has price 101, no previous price and the
  direction \<open>Neutral\<close>, where the price rose from the stored 100: the handler looks the
  previous snapshot up in the \<open>prices\<close> of the first render, which is empty.
\<close>

theorem price_rise_stored_as_neutral:
  "map_option CryptoPrice.price
     (prices
        (CryptoTracker_run
           [EvMessage (Batch [Ticker (Some ''BTCUSDT'') (Num 100) (Num 1)]) 1000]
           mounted)
        ''BTCUSDT'')
   = Some (Some (Num 100)) \<and>
   map_option (\<lambda>p. (CryptoPrice.price p, previousPrice p, priceDirection p))
     (prices
        (CryptoTracker_run
           [EvMessage (Batch [Ticker (Some ''BTCUSDT'') (Num 100) (Num 1)]) 1000,
            EvMessage (Batch [Ticker (Some ''BTCUSDT'') (Num 101) (Num 1)]) 2000]
           mounted)
        ''BTCUSDT'')
   = Some (Some (Num 101), None, Some Neutral)"
  by (simp add: CryptoTracker_step_def ws_onmessage_def mount_closure_def mounted_def
      CRYPTO_SYMBOLS_def new_snapshot_def ticker_direction_def starts_animation_def)

section \<open>The attempt counter\<close>

lemma ws_onmessage_attempts:
  "connectionAttempts (ws_onmessage cl payload now s) = connectionAttempts s"
  by (simp add: ws_onmessage_def split: agg_payload.splits prod.splits)

text \<open>
  C8, as stated, fails: after one reconnect attempt the counter is 1, and the user's
  \<open>Retry\<close> sets it to 0 without any stream having opened.
\<close>

theorem manual_reconnect_resets_counter:
  "connectionAttempts (CryptoTracker_run [EvClose, EvReconnectTimer False] mounted) \<noteq> 0 \<and>
   connectionAttempts
     (CryptoTracker_step EvHandleReconnect
        (CryptoTracker_run [EvClose, EvReconnectTimer False] mounted)) = 0 \<and>
   EvHandleReconnect \<noteq> EvOpen"
  by (simp add: CryptoTracker_step_def ws_onclose_def mount_closure_def backoffDelay_def
      reconnect_timer_def connectWebSocket_def mounted_def handleReconnect_def)

text \<open>
  C8, amended: an event that takes the attempt counter from a non-zero value to zero is
  a successful open of the stream or the user's manual reconnect.
\<close>

theorem counter_zeroed_only_by_open_or_manual:
  "connectionAttempts s \<noteq> 0 \<Longrightarrow> connectionAttempts (tracker_step cl e s) = 0 \<Longrightarrow>
   e = EvOpen \<or> e = EvHandleReconnect"
  by (cases e)
     (auto simp: ws_onmessage_attempts ws_onclose_def ws_onerror_def reconnect_timer_def
        connectWebSocket_def decay_timer_def split: if_splits)

theorem counter_zeroed_only_by_open_or_manual_witness:
  "connectionAttempts (mounted\<lparr>connectionAttempts := 3\<rparr>) \<noteq> 0 \<and>
   connectionAttempts (tracker_step mount_closure EvOpen (mounted\<lparr>connectionAttempts := 3\<rparr>)) = 0 \<and>
   (EvOpen = EvOpen \<or> EvOpen = EvHandleReconnect)"
  using counter_zeroed_only_by_open_or_manual
          [of "mounted\<lparr>connectionAttempts := 3\<rparr>" mount_closure EvOpen]
  by (simp add: ws_onopen_def)

section \<open>The two change fields of a snapshot\<close>

lemma forEach_ticker_change:
  "forEach_ticker pr now ts acc = ((np', an'), threw) \<Longrightarrow>
   \<forall>(k, v) \<in> set (fst acc). change24h v = changePercent24h v \<Longrightarrow>
   \<forall>(k, v) \<in> set np'. change24h v = changePercent24h v"
proof (induction pr now ts acc rule: forEach_ticker.induct)
  case (1 pr now acc)
  then show ?case by auto
next
  case (2 pr now ts acc)
  then show ?case by auto
next
  case (3 pr now s c P ts newPrices anim)
  then show ?case
    by (auto simp: new_snapshot_def split: option.splits)
qed

text \<open>
  C10. An entry of the price mapping that a run of the message handler put there (it is
  in the mapping afterwards and was not before) has equal \<open>change24h\<close> and
  \<open>changePercent24h\<close>.
\<close>

theorem stored_snapshot_changes_equal:
  assumes "prices (ws_onmessage cl payload now s) symb = Some snap"
    and "prices s symb \<noteq> Some snap"
  shows "change24h snap = changePercent24h snap"
proof (cases payload)
  case Unparseable
  with assms show ?thesis by (simp add: ws_onmessage_def)
next
  case NotArray
  with assms show ?thesis by (simp add: ws_onmessage_def)
next
  case (Batch ts)
  obtain np an threw
    where r: "forEach_ticker (cl_prices cl) now ts ([], priceAnimation s) = ((np, an), threw)"
    by (metis surj_pair)
  then have all: "\<forall>(k, v) \<in> set np. change24h v = changePercent24h v"
    using forEach_ticker_change by fastforce
  from assms Batch r have "map_of np symb = Some snap"
    by (auto simp: ws_onmessage_def split: if_splits)
  then have "(symb, snap) \<in> set np" by (rule map_of_SomeD)
  with all show ?thesis by auto
qed

theorem stored_snapshot_changes_equal_witness:
  "prices
     (ws_onmessage mount_closure (Batch [Ticker (Some ''BTCUSDT'') (Num 100) (Num 2)]) 1000
        mounted)
     ''BTCUSDT''
     = Some (new_snapshot (''BTCUSDT'', ''Bitcoin'', ''BTC'') None (Num 100) (Num 2) 1000) \<and>
   prices mounted ''BTCUSDT''
     \<noteq> Some (new_snapshot (''BTCUSDT'', ''Bitcoin'', ''BTC'') None (Num 100) (Num 2) 1000) \<and>
   change24h (new_snapshot (''BTCUSDT'', ''Bitcoin'', ''BTC'') None (Num 100) (Num 2) 1000)
     = changePercent24h
         (new_snapshot (''BTCUSDT'', ''Bitcoin'', ''BTC'') None (Num 100) (Num 2) 1000)"
proof -
  have a:
    "prices
       (ws_onmessage mount_closure (Batch [Ticker (Some ''BTCUSDT'') (Num 100) (Num 2)]) 1000
          mounted)
       ''BTCUSDT''
     = Some (new_snapshot (''BTCUSDT'', ''Bitcoin'', ''BTC'') None (Num 100) (Num 2) 1000)"
    by (simp add: ws_onmessage_def mount_closure_def mounted_def CRYPTO_SYMBOLS_def
        starts_animation_def)
  have b:
    "prices mounted ''BTCUSDT''
     \<noteq> Some (new_snapshot (''BTCUSDT'', ''Bitcoin'', ''BTC'') None (Num 100) (Num 2) 1000)"
    by (simp add: mounted_def)
  from a b stored_snapshot_changes_equal [OF a b] show ?thesis by simp
qed

section \<open>Responses of the history endpoint\<close>

lemma klines_request_24h: "klines_request symb ''24h'' = (symb, ''5m'', 288)"
  by (simp add: klines_request_def config_def intervalMap_def)

text \<open>
  C1, as stated, fails. Two loads are started on a new chart, the second one's response
  (a row opened at 2000) is applied, then the first one's (a row opened at 1000) arrives:
  the bars are no longer those of the second response.
\<close>

theorem late_response_overwrites_bars:
  "chartData
     (fetch_resolve ''1h'' None exact_engine 0
        (HttpResponse True 200 (Rows [Kline 1000 (Num 1) (Num 2) (Num 1) (Num 2) (Num 5)]))
        (fetch_resolve ''1h'' None exact_engine 0
           (HttpResponse True 200 (Rows [Kline 2000 (Num 7) (Num 8) (Num 7) (Num 8) (Num 9)]))
           (fetch_start (fetch_start chart_initial))))
   \<noteq> chartData
       (fetch_resolve ''1h'' None exact_engine 0
          (HttpResponse True 200 (Rows [Kline 2000 (Num 7) (Num 8) (Num 7) (Num 8) (Num 9)]))
          (fetch_start (fetch_start chart_initial)))"
  by (simp add: fetch_resolve_def fetch_try_def)

text \<open>
  C1, amended: a response is applied when it arrives. Whatever response was applied
  before, a response that the \<open>try\<close> block accepts replaces the bar sequence with its own
  bars; there is no tag by which an earlier request's response would be recognised.
\<close>

theorem response_applied_on_arrival:
  "fetch_try tfA outcomeA = Inr barsA \<Longrightarrow>
   chartData
     (fetch_resolve tfA cpA engA nowA outcomeA
        (fetch_resolve tfB cpB engB nowB outcomeB s)) = barsA"
  by (simp add: fetch_resolve_def)

theorem response_applied_on_arrival_witness:
  "chartData
     (fetch_resolve ''1h'' None exact_engine 0
        (HttpResponse True 200 (Rows [Kline 1000 (Num 1) (Num 2) (Num 1) (Num 2) (Num 5)]))
        (fetch_resolve ''1h'' None exact_engine 0
           (HttpResponse True 200 (Rows [Kline 2000 (Num 7) (Num 8) (Num 7) (Num 8) (Num 9)]))
           (fetch_start (fetch_start chart_initial))))
   = [\<lparr>time = LocaleTime 1000, price = Num 2, timestamp = 1000, volume = Num 5,
       open = Num 1, high = Num 2, low = Num 1, close = Num 2\<rparr>]"
proof -
  have "fetch_try ''1h''
          (HttpResponse True 200 (Rows [Kline 1000 (Num 1) (Num 2) (Num 1) (Num 2) (Num 5)]))
        = Inr [\<lparr>time = LocaleTime 1000, price = Num 2, timestamp = 1000, volume = Num 5,
                open = Num 1, high = Num 2, low = Num 1, close = Num 2\<rparr>]"
    by (simp add: fetch_try_def)
  then show ?thesis by (rule response_applied_on_arrival)
qed

section \<open>A failed load\<close>

lemma fetch_catch_falsy:
  "\<not> truthy currentPrice \<Longrightarrow> fetch_catch msg currentPrice eng now s = s\<lparr>error := Some msg\<rparr>"
  by (cases currentPrice) (simp_all add: fetch_catch_def)

lemma fetch_catch_truthy:
  "truthy (Some p) \<Longrightarrow>
   fetch_catch msg (Some p) eng now s = s\<lparr>chartData := sample_data eng now p, error := None\<rparr>"
  by (simp add: fetch_catch_def)

text \<open>
  C6, as stated, fails. On a new chart the per-symbol stream delivers a tick before the
  fetch is rejected, and no current price is passed in: the bar sequence holds that
  tick's bar, not nothing.
\<close>

theorem failed_fetch_keeps_bars:
  "fetch_try ''1h'' (FetchRejected (ErrorObject ''Failed to fetch''))
     = Inl (ErrorMessage ''Failed to fetch'') \<and>
   error
     (fetch_resolve ''1h'' None exact_engine 1700000002000
        (FetchRejected (ErrorObject ''Failed to fetch''))
        (chart_onmessage ''1h''
           (ChartTicker (Num 100) (Num 5) (Num 99) (Num 101) (Num 98)) 1700000001000
           (fetch_start chart_initial)))
     = Some (ErrorMessage ''Failed to fetch'') \<and>
   chartData
     (fetch_resolve ''1h'' None exact_engine 1700000002000
        (FetchRejected (ErrorObject ''Failed to fetch''))
        (chart_onmessage ''1h''
           (ChartTicker (Num 100) (Num 5) (Num 99) (Num 101) (Num 98)) 1700000001000
           (fetch_start chart_initial)))
     \<noteq> []"
  by (simp add: fetch_resolve_def fetch_try_def fetch_catch_def message_of_def
      chart_onmessage_def append_point_def)

text \<open>
  C6, amended: when the load fails and the current price is not truthy (undefined,
  \<open>NaN\<close> or \<open>0\<close>), the error is set to the failure's message, the loading flag is
  false and the bar sequence is what it was before.
\<close>

theorem failure_without_price:
  assumes "fetch_try tf outcome = Inl msg" and "\<not> truthy currentPrice"
  shows "error (fetch_resolve tf currentPrice eng now outcome s) = Some msg \<and>
         chartData (fetch_resolve tf currentPrice eng now outcome s) = chartData s \<and>
         loading (fetch_resolve tf currentPrice eng now outcome s) = False"
  using assms by (simp add: fetch_resolve_def fetch_catch_falsy)

theorem failure_without_price_witness:
  "error (fetch_resolve ''1h'' None exact_engine 1700000002000
            (FetchRejected (ErrorObject ''Failed to fetch'')) (fetch_start chart_initial))
     = Some (ErrorMessage ''Failed to fetch'') \<and>
   chartData (fetch_resolve ''1h'' None exact_engine 1700000002000
            (FetchRejected (ErrorObject ''Failed to fetch'')) (fetch_start chart_initial))
     = chartData (fetch_start chart_initial) \<and>
   loading (fetch_resolve ''1h'' None exact_engine 1700000002000
            (FetchRejected (ErrorObject ''Failed to fetch'')) (fetch_start chart_initial))
     = False"
proof -
  have a: "fetch_try ''1h'' (FetchRejected (ErrorObject ''Failed to fetch''))
           = Inl (ErrorMessage ''Failed to fetch'')"
    by (simp add: fetch_try_def message_of_def)
  have b: "\<not> truthy None" by simp
  from failure_without_price [OF a b] show ?thesis .
qed

subsection \<open>The placeholder series\<close>

lemma sample_loop_acc:
  "sample_loop eng now js pr k acc = acc @ sample_loop eng now js pr k []"
proof (induction js arbitrary: pr k acc)
  case Nil
  then show ?case by simp
next
  case (Cons i js)
  show ?case
    apply (simp add: Let_def)
    apply (subst Cons.IH)
    apply (subst (2) Cons.IH)
    apply simp
    done
qed

lemma sample_loop_length:
  "length (sample_loop eng now js pr k acc) = length acc + length js"
  by (induction js arbitrary: pr k acc) (simp_all add: Let_def)

lemma sample_loop_timestamps:
  "map timestamp (sample_loop eng now js pr k acc)
   = map timestamp acc @ map (\<lambda>i. now - int i * 60000) js"
  by (induction js arbitrary: pr k acc) (simp_all add: Let_def)


text \<open>
  Under \<open>exact_engine\<close> the walk stays where it starts: every bar of the series has
  open, high, low and close at the current price and a volume of 500000.
\<close>

lemma exact_engine_ops:
  "f_lit exact_engine = Num" "f_add exact_engine = finite_op (+)"
  "f_sub exact_engine = finite_op (-)" "f_mul exact_engine = finite_op (*)"
  "f_max exact_engine = finite_op max" "f_min exact_engine = finite_op min"
  by (simp_all add: exact_engine_def)

lemma exact_engine_random:
  assumes "k mod 4 = 0"
  shows "random exact_engine k = Num (1 / 2)" "random exact_engine (Suc k) = Num 0"
    "random exact_engine (Suc (Suc k)) = Num 0" "random exact_engine (k + 3) = Num (1 / 2)"
proof -
  have "Suc k mod 4 = 1" "Suc (Suc k) mod 4 = 2" "(k + 3) mod 4 = 3"
    using assms by presburger+
  with assms show "random exact_engine k = Num (1 / 2)" "random exact_engine (Suc k) = Num 0"
    "random exact_engine (Suc (Suc k)) = Num 0" "random exact_engine (k + 3) = Num (1 / 2)"
    by (simp_all add: exact_engine_def)
qed

lemma exact_engine_flat:
  "k mod 4 = 0 \<Longrightarrow>
   sample_loop exact_engine now js (Num p) k [] =
     map (\<lambda>i. \<lparr>time = LocaleTime (now - int i * 60000), price = Num p,
                 timestamp = now - int i * 60000, volume = Num 500000, open = Num p,
                 high = Num p, low = Num p, close = Num p\<rparr>) js"
proof (induction js arbitrary: k)
  case Nil
  show ?case by simp
next
  case (Cons i js)
  have k4: "(k + 4) mod 4 = 0"
    using Cons.prems by presburger
  show ?case
    apply (simp add: Let_def)
    apply (subst sample_loop_acc)
    apply (simp add: exact_engine_ops exact_engine_random [OF Cons.prems] finite_op_def
        Cons.IH [OF k4])
    done
qed




section \<open>The sliding window\<close>

lemma append_point_full:
  "length prev = maxPoints tf \<Longrightarrow> append_point tf pt prev = tl prev @ [pt]"
  by (cases prev) (auto simp: append_point_def slice_neg_def maxPoints_def split: if_splits)

lemma capacity_values:
  "capacity ''1h'' = 60" "capacity ''24h'' = 288" "capacity ''7d'' = 168" "capacity ''30d'' = 180"
  by (simp_all add: capacity_def config_def intervalMap_def)

lemma capacity_maxPoints:
  "tf \<in> {''1h'', ''24h'', ''7d''} \<Longrightarrow> capacity tf = maxPoints tf"
  by (auto simp: capacity_values maxPoints_def)

text \<open>
  On a window of exactly \<open>maxPoints tf\<close> bars an append drops the first bar and adds the
  new one, and for the timeframes 1h, 24h and 7d that is the capacity. For 30d the
  conditional of line 164 has no case and gives the 168 of 7d, where \<open>intervalMap\<close> loads
  180 bars.

  C7. The 30d window holds the 180 bars of a load, numbered by their timestamps 0 to
  179. One append leaves 168 bars: the bars 0 to 12 are gone, not only bar 0.
\<close>

theorem append_to_full_30d_window:
  "capacity ''30d'' = 180 \<and>
   length (map (newDataPoint (Num 1) (Num 1) (Num 1) (Num 1) (Num 1) \<circ> int) [0..<180]) = 180 \<and>
   append_point ''30d'' (newDataPoint (Num 2) (Num 2) (Num 2) (Num 2) (Num 2) 180)
     (map (newDataPoint (Num 1) (Num 1) (Num 1) (Num 1) (Num 1) \<circ> int) [0..<180])
   = map (newDataPoint (Num 1) (Num 1) (Num 1) (Num 1) (Num 1) \<circ> int) [13..<180]
     @ [newDataPoint (Num 2) (Num 2) (Num 2) (Num 2) (Num 2) 180] \<and>
   length (append_point ''30d'' (newDataPoint (Num 2) (Num 2) (Num 2) (Num 2) (Num 2) 180)
     (map (newDataPoint (Num 1) (Num 1) (Num 1) (Num 1) (Num 1) \<circ> int) [0..<180])) = 168"
  by (simp add: capacity_values append_point_def slice_neg_def maxPoints_def drop_map)

section \<open>Messages that do not parse\<close>

lemma forEach_ticker_null:
  "NullElem \<in> set ts \<Longrightarrow> snd (forEach_ticker pr now ts acc)"
  by (induction pr now ts acc rule: forEach_ticker.induct) (auto split: option.splits)

text \<open>
  C9, as stated, fails. A message of the per-symbol stream that parses to a value without
  any of the fields (\<open>{}\<close>, say) is malformed, and its bar, all \<open>NaN\<close>, is appended.
\<close>

theorem fieldless_tick_is_appended:
  "malformed_chart_payload (ChartTicker NaN NaN NaN NaN NaN) \<and>
   chartData (chart_onmessage ''1h'' (ChartTicker NaN NaN NaN NaN NaN) 1700000000000 chart_initial)
   \<noteq> chartData chart_initial"
  by (simp add: chart_onmessage_def append_point_def chart_initial_def)

text \<open>The same on the aggregate stream: an update without a price is stored as \<open>NaN\<close>.\<close>

lemma ticker_without_price_is_stored:
  "map_option CryptoPrice.price
     (prices
        (ws_onmessage mount_closure (Batch [Ticker (Some ''BTCUSDT'') NaN NaN]) 1000 mounted)
        ''BTCUSDT'')
   = Some (Some NaN)"
  by (simp add: ws_onmessage_def mount_closure_def mounted_def CRYPTO_SYMBOLS_def
      new_snapshot_def starts_animation_def)

text \<open>
  C9, amended: a message on which the handler's \<open>try\<close> block throws (the payload is not
  JSON; on the aggregate stream it is not an array or has a \<open>null\<close> element; on the
  per-symbol stream it is \<open>null\<close>) changes no state cell of either component: prices,
  connectivity flag, attempt counter, bars, error and the rest stay as they were. Only
  the decay timers, which live in a ref, may have been restarted before the exception.
\<close>

theorem throwing_message_is_dropped:
  assumes "agg_throws payload" and "chart_throws cpayload"
  shows "(ws_onmessage cl payload now s)\<lparr>priceAnimation := priceAnimation s\<rparr> = s \<and>
         chart_onmessage tf cpayload now' c = c"
proof
  show "(ws_onmessage cl payload now s)\<lparr>priceAnimation := priceAnimation s\<rparr> = s"
  proof (cases payload)
    case (Batch ts)
    obtain np an threw
      where r: "forEach_ticker (cl_prices cl) now ts ([], priceAnimation s) = ((np, an), threw)"
      by (metis surj_pair)
    from Batch assms(1) have "snd (forEach_ticker (cl_prices cl) now ts ([], priceAnimation s))"
      by (simp add: forEach_ticker_null)
    with r have "threw" by simp
    with Batch r show ?thesis
      by (simp add: ws_onmessage_def)
  qed (simp_all add: ws_onmessage_def)
  show "chart_onmessage tf cpayload now' c = c"
    using assms(2) by (cases cpayload) (simp_all add: chart_onmessage_def)
qed

theorem throwing_message_is_dropped_witness:
  "(ws_onmessage mount_closure (Batch [Ticker (Some ''BTCUSDT'') (Num 100) (Num 2), NullElem])
      1000 mounted)\<lparr>priceAnimation := priceAnimation mounted\<rparr> = mounted \<and>
   chart_onmessage ''1h'' ChartNull 1000 chart_initial = chart_initial"
proof -
  have a: "agg_throws (Batch [Ticker (Some ''BTCUSDT'') (Num 100) (Num 2), NullElem])" by simp
  have b: "chart_throws ChartNull" by simp
  from throwing_message_is_dropped [OF a b] show ?thesis .
qed

section \<open>Order and size of the bar sequence\<close>

text \<open>
  C4, as stated, fails. A load delivers one bar opened at 1700000040000; the next tick is
  appended with a \<open>Date.now()\<close> of 1700000000000, and the sequence is not ascending.
\<close>

theorem append_before_last_bar_unsorted:
  "\<not> sorted
       (map timestamp
          (chartData
             (live_appends ''1h''
                [(ChartTicker (Num 100) (Num 5) (Num 99) (Num 101) (Num 98), 1700000000000)]
                (fetch_resolve ''1h'' None exact_engine 1700000000000
                   (HttpResponse True 200
                      (Rows [Kline 1700000040000 (Num 99) (Num 101) (Num 98) (Num 100) (Num 5)]))
                   (fetch_start chart_initial)))))"
  by (simp add: fetch_resolve_def fetch_try_def chart_onmessage_def append_point_def
      slice_neg_def maxPoints_def newDataPoint_def fetch_start_def chart_initial_def)

lemma maxPoints_le_capacity:
  "tf \<in> {''1h'', ''24h'', ''7d'', ''30d''} \<Longrightarrow> maxPoints tf \<le> capacity tf"
  by (auto simp: maxPoints_def capacity_values)

lemma capacity_ge_60:
  "tf \<in> {''1h'', ''24h'', ''7d'', ''30d''} \<Longrightarrow> 60 \<le> capacity tf"
  by (auto simp: capacity_values)

lemma append_point_length: "length (append_point tf pt prev) \<le> maxPoints tf"
  by (auto simp: append_point_def slice_neg_def maxPoints_def)

lemma in_append_pointD: "b \<in> set (append_point tf pt prev) \<Longrightarrow> b \<in> set prev \<or> b = pt"
  by (auto simp: append_point_def slice_neg_def dest: in_set_dropD split: if_splits)

lemma chart_onmessage_members:
  "b \<in> set (chartData (chart_onmessage tf payload now s)) \<Longrightarrow>
   b \<in> set (chartData s) \<or> timestamp b = now"
  by (cases payload) (auto simp: chart_onmessage_def newDataPoint_def dest!: in_append_pointD)

lemma append_point_sorted:
  assumes "sorted (map timestamp prev)" and "\<forall>b \<in> set prev. timestamp b \<le> timestamp pt"
  shows "sorted (map timestamp (append_point tf pt prev))"
proof -
  have "sorted (map timestamp (slice_neg (maxPoints tf - 1) prev))"
    using assms(1) by (simp add: slice_neg_def sorted_wrt_drop flip: drop_map)
  moreover have "\<forall>b \<in> set (slice_neg (maxPoints tf - 1) prev). timestamp b \<le> timestamp pt"
    using assms(2) by (auto simp: slice_neg_def dest: in_set_dropD)
  ultimately show ?thesis
    by (simp add: append_point_def sorted_append)
qed

lemma live_appends_inv:
  assumes "tf \<in> {''1h'', ''24h'', ''7d'', ''30d''}"
  shows "sorted (map timestamp (chartData s)) \<Longrightarrow> length (chartData s) \<le> capacity tf \<Longrightarrow>
         sorted (map snd ticks) \<Longrightarrow>
         \<forall>b \<in> set (chartData s). \<forall>t \<in> snd ` set ticks. timestamp b \<le> t \<Longrightarrow>
         sorted (map timestamp (chartData (live_appends tf ticks s))) \<and>
         length (chartData (live_appends tf ticks s)) \<le> capacity tf"
proof (induction ticks arbitrary: s)
  case Nil
  then show ?case by simp
next
  case (Cons m ticks)
  obtain payload now where m: "m = (payload, now)" by (cases m)
  let ?s = "chart_onmessage tf payload now s"
  have srt: "sorted (map timestamp (chartData ?s))"
    using Cons.prems(1,4) m
    by (cases payload) (simp_all add: chart_onmessage_def append_point_sorted newDataPoint_def)
  have len: "length (chartData ?s) \<le> capacity tf"
    using Cons.prems(2) maxPoints_le_capacity [OF assms] append_point_length [of tf]
    by (cases payload) (auto simp: chart_onmessage_def intro: order_trans)
  have later: "sorted (map snd ticks)"
    using Cons.prems(3) by simp
  have bnd: "\<forall>b \<in> set (chartData ?s). \<forall>t \<in> snd ` set ticks. timestamp b \<le> t"
  proof (intro ballI)
    fix b t assume b: "b \<in> set (chartData ?s)" and t: "t \<in> snd ` set ticks"
    have "b \<in> set (chartData s) \<or> timestamp b = now"
      using b by (rule chart_onmessage_members)
    then show "timestamp b \<le> t"
    proof
      assume "b \<in> set (chartData s)"
      with Cons.prems(4) t show ?thesis by auto
    next
      assume "timestamp b = now"
      with Cons.prems(3) t m show ?thesis by auto
    qed
  qed
  from Cons.IH [OF srt len later bnd] m show ?case by simp
qed

lemma sample_data_sorted: "sorted (map timestamp (sample_data eng now p))"
proof -
  have "sorted_wrt (\<lambda>x y. y < x) (rev [0..<60::nat])"
    by (simp add: sorted_wrt_rev)
  then have "sorted_wrt (\<lambda>i j. now - int i * 60000 \<le> now - int j * 60000) (rev [0..<60::nat])"
    by (rule sorted_wrt_mono_rel [rotated]) simp
  then show ?thesis
    by (simp only: sample_data_def sample_loop_timestamps sorted_wrt_map list.map append_Nil)
qed

lemma fetch_resolve_inv:
  assumes tf: "tf \<in> {''1h'', ''24h'', ''7d'', ''30d''}"
    and server: "\<forall>bars. fetch_try tf outcome = Inr bars \<longrightarrow>
                   sorted (map timestamp bars) \<and> length bars \<le> capacity tf"
    and s0: "sorted (map timestamp (chartData s0))" "length (chartData s0) \<le> capacity tf"
  shows "sorted (map timestamp (chartData (fetch_resolve tf currentPrice eng now outcome s0))) \<and>
         length (chartData (fetch_resolve tf currentPrice eng now outcome s0)) \<le> capacity tf"
proof (cases "fetch_try tf outcome")
  case (Inr bars)
  with server show ?thesis by (simp add: fetch_resolve_def)
next
  case (Inl msg)
  show ?thesis
  proof (cases "truthy currentPrice")
    case False
    with Inl s0 show ?thesis by (simp add: fetch_resolve_def fetch_catch_falsy)
  next
    case True
    then obtain p where "currentPrice = Some p" "truthy (Some p)"
      by (cases currentPrice) auto
    with Inl capacity_ge_60 [OF tf] show ?thesis
      by (simp add: fetch_resolve_def fetch_catch_truthy sample_data_sorted)
         (simp add: sample_data_def sample_loop_length)
  qed
qed

text \<open>
  C4, amended. Take one of the four selectable timeframes and a bar sequence that is
  ascending and within the timeframe's capacity (the empty one of a new chart, for
  instance). If the bars of an accepted response are ascending and at most as many as
  requested, and if the clock readings of the appends are ascending and not before any
  bar present after the load, then after the load and after every further append the
  sequence is ascending by timestamp and within the capacity.
\<close>

theorem bars_sorted_and_bounded:
  assumes tf: "tf \<in> {''1h'', ''24h'', ''7d'', ''30d''}"
    and s0: "sorted (map timestamp (chartData s0))" "length (chartData s0) \<le> capacity tf"
    and server: "\<forall>bars. fetch_try tf outcome = Inr bars \<longrightarrow>
                   sorted (map timestamp bars) \<and> length bars \<le> capacity tf"
    and s1: "s1 = fetch_resolve tf currentPrice eng now outcome (fetch_start s0)"
    and clock: "sorted (map snd ticks)"
       "\<forall>b \<in> set (chartData s1). \<forall>t \<in> snd ` set ticks. timestamp b \<le> t"
  shows "sorted (map timestamp (chartData (live_appends tf (take n ticks) s1))) \<and>
         length (chartData (live_appends tf (take n ticks) s1)) \<le> capacity tf"
proof -
  have a: "sorted (map timestamp (chartData s1)) \<and> length (chartData s1) \<le> capacity tf"
    unfolding s1 using tf server s0 by (intro fetch_resolve_inv) (simp_all add: fetch_start_def)
  have b: "sorted (map snd (take n ticks))"
    using clock(1) by (simp add: sorted_wrt_take flip: take_map)
  have c: "\<forall>b \<in> set (chartData s1). \<forall>t \<in> snd ` set (take n ticks). timestamp b \<le> t"
    using clock(2) by (auto dest: in_set_takeD)
  from live_appends_inv [OF tf _ _ b c] a show ?thesis by blast
qed

theorem bars_sorted_and_bounded_witness:
  "sorted
     (map timestamp
        (chartData
           (live_appends ''1h''
              (take 1 [(ChartTicker (Num 100) (Num 5) (Num 99) (Num 101) (Num 98), 1700000050000)])
              (fetch_resolve ''1h'' None exact_engine 1700000045000
                 (HttpResponse True 200
                    (Rows [Kline 1700000040000 (Num 99) (Num 101) (Num 98) (Num 100) (Num 5)]))
                 (fetch_start chart_initial))))) \<and>
   length
     (chartData
        (live_appends ''1h''
           (take 1 [(ChartTicker (Num 100) (Num 5) (Num 99) (Num 101) (Num 98), 1700000050000)])
           (fetch_resolve ''1h'' None exact_engine 1700000045000
              (HttpResponse True 200
                 (Rows [Kline 1700000040000 (Num 99) (Num 101) (Num 98) (Num 100) (Num 5)]))
              (fetch_start chart_initial))))
   \<le> capacity ''1h''"
proof -
  have tf: "''1h'' \<in> {''1h'', ''24h'', ''7d'', ''30d''}" by simp
  have s0: "sorted (map timestamp (chartData chart_initial))"
    "length (chartData chart_initial) \<le> capacity ''1h''"
    by (simp_all add: chart_initial_def)
  have server:
    "\<forall>bars. fetch_try ''1h''
              (HttpResponse True 200
                 (Rows [Kline 1700000040000 (Num 99) (Num 101) (Num 98) (Num 100) (Num 5)]))
            = Inr bars \<longrightarrow> sorted (map timestamp bars) \<and> length bars \<le> capacity ''1h''"
    by (auto simp: fetch_try_def capacity_values)
  have clock1:
    "sorted (map snd [(ChartTicker (Num 100) (Num 5) (Num 99) (Num 101) (Num 98),
                       1700000050000 :: int)])"
    by simp
  have clock2:
    "\<forall>b \<in> set (chartData
                 (fetch_resolve ''1h'' None exact_engine 1700000045000
                    (HttpResponse True 200
                       (Rows [Kline 1700000040000 (Num 99) (Num 101) (Num 98) (Num 100) (Num 5)]))
                    (fetch_start chart_initial))).
       \<forall>t \<in> snd ` set [(ChartTicker (Num 100) (Num 5) (Num 99) (Num 101) (Num 98),
                          1700000050000 :: int)].
         timestamp b \<le> t"
    by (simp add: fetch_resolve_def fetch_try_def)
  from bars_sorted_and_bounded [OF tf s0 server refl clock1 clock2, of 1] show ?thesis .
qed

end
